theory Spec2Isabelle
  imports Main "HOL-Library.Sublist"
begin

section \<open>Values of the JavaScript side\<close>

text \<open>
  A JSON field read from a provider reply, a request body or a decoded token is
  \<open>undefined\<close> (absent), \<open>null\<close> or a string. \<open>truthy\<close> is the test that
  \<open>!x\<close> and \<open>x || y\<close> apply: of these values only a non-empty string passes.
\<close>

datatype jsv = Undefined | Null | Str string

fun truthy :: "jsv \<Rightarrow> bool" where
  "truthy (Str s) = (s \<noteq> [])"
| "truthy _ = False"

text \<open>\<open>a || b\<close>.\<close>

definition js_or :: "jsv \<Rightarrow> jsv \<Rightarrow> jsv" where
  "js_or a b = (if truthy a then a else b)"

text \<open>An environment variable or a query parameter: a string or absent.\<close>

definition present :: "string option \<Rightarrow> bool" where
  "present v = (case v of None \<Rightarrow> False | Some s \<Rightarrow> s \<noteq> [])"

text \<open>A column value read back from SQLite: \<open>NULL\<close> comes back as \<open>null\<close>.\<close>

definition of_column :: "string option \<Rightarrow> jsv" where
  "of_column c = (case c of None \<Rightarrow> Null | Some s \<Rightarrow> Str s)"

text \<open>
  \<open>Number.prototype.toString()\<close> on a non-negative integer (a GitHub account id,
  below \<open>2^53\<close>): its decimal digits.
\<close>

definition digit_char :: "nat \<Rightarrow> char" where
  "digit_char d = char_of (48 + d)"

function toString :: "nat \<Rightarrow> string" where
  "toString n = (if n < 10 then [digit_char n] else toString (n div 10) @ [digit_char (n mod 10)])"
  by pat_completeness auto
termination
  by (relation "measure id") auto

declare toString.simps [simp del]

text \<open>What a \<open>throw\<close> inside the callback's \<open>try\<close> carries.\<close>

datatype thrown =
    NetworkError
  | Error string
  | TypeError
  | SqliteError

section \<open>The store\<close>

text \<open>
  The tables \<open>users\<close> (\<open>id TEXT PRIMARY KEY, email TEXT UNIQUE, nickname TEXT,
  avatar_url TEXT\<close>) and \<open>admitted_users\<close> (\<open>email TEXT PRIMARY KEY\<close>), rows in
  insertion order. The timestamp columns are filled by the database and read by none
  of the statements below; they are left out.
\<close>

record user_row =
  u_id :: string
  u_email :: string
  u_nickname :: "string option"
  u_avatar_url :: "string option"

record db =
  users :: "user_row list"
  admitted_users :: "string list"

text \<open>\<open>SELECT * FROM admitted_users WHERE email = ?\<close>, \<open>.get()\<close>: the first row or
  \<open>undefined\<close>. SQLite compares \<open>TEXT\<close> byte for byte.\<close>

definition select_admitted :: "db \<Rightarrow> string \<Rightarrow> string option" where
  "select_admitted d email = find (\<lambda>e. e = email) (admitted_users d)"

text \<open>\<open>INSERT INTO admitted_users (email) VALUES (?)\<close>: the primary key rejects a
  second row with the same email.\<close>

definition insert_admitted :: "db \<Rightarrow> string \<Rightarrow> thrown + db" where
  "insert_admitted d email =
     (if email \<in> set (admitted_users d) then Inl SqliteError
      else Inr (d\<lparr>admitted_users := admitted_users d @ [email]\<rparr>))"

text \<open>\<open>DELETE FROM admitted_users WHERE email = ?\<close>.\<close>

definition delete_admitted :: "db \<Rightarrow> string \<Rightarrow> db" where
  "delete_admitted d email = d\<lparr>admitted_users := filter (\<lambda>e. e \<noteq> email) (admitted_users d)\<rparr>"

text \<open>\<open>SELECT * FROM users WHERE email = ?\<close> and \<open>... WHERE id = ?\<close>, \<open>.get()\<close>.\<close>

definition select_user_by_email :: "db \<Rightarrow> string \<Rightarrow> user_row option" where
  "select_user_by_email d email = find (\<lambda>r. u_email r = email) (users d)"

definition select_user_by_id :: "db \<Rightarrow> string \<Rightarrow> user_row option" where
  "select_user_by_id d i = find (\<lambda>r. u_id r = i) (users d)"

text \<open>
  Binding a positional parameter: better-sqlite3 binds a string as \<open>TEXT\<close> and both
  \<open>null\<close> and \<open>undefined\<close> as \<open>NULL\<close>.
\<close>

fun bind_text :: "jsv \<Rightarrow> string option" where
  "bind_text (Str s) = Some s"
| "bind_text _ = None"

text \<open>
  \<open>INSERT INTO users (id, email, nickname, avatar_url) VALUES (?, ?, ?, ?)\<close>: the
  primary key on \<open>id\<close> and the uniqueness of \<open>email\<close> are enforced.
\<close>

definition insert_user :: "db \<Rightarrow> string \<Rightarrow> string \<Rightarrow> jsv \<Rightarrow> jsv \<Rightarrow> thrown + db" where
  "insert_user d i email nickname avatar =
     (if i \<in> u_id ` set (users d) \<or> email \<in> u_email ` set (users d)
      then Inl SqliteError
      else Inr (d\<lparr>users := users d @
             [\<lparr>u_id = i, u_email = email, u_nickname = bind_text nickname,
               u_avatar_url = bind_text avatar\<rparr>]\<rparr>))"

text \<open>\<open>UPDATE users SET nickname = ? WHERE id = ?\<close>.\<close>

definition update_nickname :: "db \<Rightarrow> string \<Rightarrow> string \<Rightarrow> db" where
  "update_nickname d nickname i =
     d\<lparr>users := map (\<lambda>r. if u_id r = i then r\<lparr>u_nickname := Some nickname\<rparr> else r) (users d)\<rparr>"

text \<open>
  The allow-list bootstrap at start-up: count the rows, and insert the seed when
  there are none. An exception here is not caught: the process stops.
\<close>

definition seed_email :: string where
  "seed_email = ''config.shu@gmail.com''"

definition bootstrap :: "db \<Rightarrow> thrown + db" where
  "bootstrap d =
     (let admittedCount = length (admitted_users d)
      in if admittedCount = 0 then insert_admitted d seed_email else Inr d)"

section \<open>Session tokens\<close>

text \<open>
  The payload signed at login, with the \<open>iat\<close> and \<open>exp\<close> claims (seconds) that
  \<open>jwt.sign\<close> adds for \<open>expiresIn: "7d"\<close>.
\<close>

record claims =
  c_id :: jsv
  c_email :: jsv
  c_nickname :: jsv
  c_avatar_url :: jsv
  c_iat :: nat
  c_exp :: nat

text \<open>
  The jsonwebtoken library is modelled symbolically: a token is either the claims
  together with the key that signed them, or a string that is no token of any key.
  A signature verifies exactly under the key that made it.
\<close>

datatype token = Jwt claims string | Malformed string

definition seven_days :: nat where
  "seven_days = 7 * 24 * 60 * 60"

definition jwt_sign :: "jsv \<Rightarrow> jsv \<Rightarrow> jsv \<Rightarrow> jsv \<Rightarrow> string \<Rightarrow> nat \<Rightarrow> token" where
  "jwt_sign i email nickname avatar secret now =
     Jwt \<lparr>c_id = i, c_email = email, c_nickname = nickname, c_avatar_url = avatar,
          c_iat = now, c_exp = now + seven_days\<rparr> secret"

datatype jwt_error = JsonWebTokenError | TokenExpiredError

fun jwt_verify :: "token \<Rightarrow> string \<Rightarrow> nat \<Rightarrow> jwt_error + claims" where
  "jwt_verify (Malformed s) secret now = Inl JsonWebTokenError"
| "jwt_verify (Jwt c k) secret now =
     (if k \<noteq> secret then Inl JsonWebTokenError
      else if now \<ge> c_exp c then Inl TokenExpiredError
      else Inr c)"

section \<open>The server\<close>

record env =
  GITHUB_CLIENT_ID :: "string option"
  GITHUB_CLIENT_SECRET :: "string option"
  JWT_SECRET_var :: "string option"

text \<open>\<open>process.env.JWT_SECRET || "super-secret-key-for-dev"\<close>.\<close>

definition JWT_SECRET :: "env \<Rightarrow> string" where
  "JWT_SECRET ev =
     (case JWT_SECRET_var ev of
        None \<Rightarrow> ''super-secret-key-for-dev''
      | Some s \<Rightarrow> if s = [] then ''super-secret-key-for-dev'' else s)"

record cookie =
  ck_value :: token
  ck_httpOnly :: bool
  ck_secure :: bool
  ck_sameSite :: string
  ck_maxAge :: nat

datatype body =
    MissingCodeOrCredentials
  | AccessDenied string
  | AuthenticationSuccessful
  | AuthenticationFailed thrown
  | JsonError string
  | JsonSuccess
  | JsonSuccessNickname string
  | JsonRow user_row
  | JsonClaims claims

record response =
  status :: nat
  content :: body
  set_cookie :: "cookie option"

definition reply :: "nat \<Rightarrow> body \<Rightarrow> response" where
  "reply st b = \<lparr>status = st, content = b, set_cookie = None\<rparr>"

subsection \<open>The authentication middleware\<close>

text \<open>
  \<open>authenticate\<close> answers 401 itself, or hands the decoded claims to the handler
  (\<open>req.user = decoded; next()\<close>).
\<close>

definition authenticate :: "env \<Rightarrow> token option \<Rightarrow> nat \<Rightarrow> response + claims" where
  "authenticate ev auth_token now =
     (case auth_token of
        None \<Rightarrow> Inl (reply 401 (JsonError ''Unauthorized''))
      | Some t \<Rightarrow>
          (case jwt_verify t (JWT_SECRET ev) now of
             Inl err \<Rightarrow> Inl (reply 401 (JsonError ''Invalid token''))
           | Inr decoded \<Rightarrow> Inr decoded))"

subsection \<open>The provider's replies\<close>

text \<open>
  The three \<open>fetch\<close> calls of the callback are inputs of the model: each either
  throws (transport failure, a body that is not JSON) or yields a body. Bodies are JSON
  objects; the email list may be an object instead of an array (an error reply), on
  which \<open>emails.find\<close> is not a function.
\<close>

datatype 'a fetched = Threw | Body 'a

record user_data =
  ud_id :: "nat option"
  ud_login :: jsv
  ud_avatar_url :: jsv

record email_obj =
  eo_email :: jsv
  eo_primary :: bool

datatype emails_body = NotAnArray | Array "email_obj list"

record provider =
  tokenData_access_token :: "jsv fetched"
  userData_reply :: "user_data fetched"
  emails_reply :: "emails_body fetched"

text \<open>\<open>(emails.find(e => e.primary) || emails[0])?.email\<close>.\<close>

definition primary_email :: "email_obj list \<Rightarrow> jsv" where
  "primary_email emails =
     (case find eo_primary emails of
        Some e \<Rightarrow> eo_email e
      | None \<Rightarrow> (case emails of [] \<Rightarrow> Undefined | e # _ \<Rightarrow> eo_email e))"

text \<open>
  The exchange, from the token request to the check \<open>if (!email)\<close>: the profile and
  the email the login attempt resolves to, or what was thrown.
\<close>

definition exchange :: "provider \<Rightarrow> thrown + (user_data \<times> string)" where
  "exchange p =
     (case tokenData_access_token p of
        Threw \<Rightarrow> Inl NetworkError
      | Body accessToken \<Rightarrow>
          if \<not> truthy accessToken then Inl (Error ''Failed to get access token'')
          else (case userData_reply p of
                  Threw \<Rightarrow> Inl NetworkError
                | Body userData \<Rightarrow>
                    (case emails_reply p of
                       Threw \<Rightarrow> Inl NetworkError
                     | Body NotAnArray \<Rightarrow> Inl TypeError
                     | Body (Array emails) \<Rightarrow>
                         (case primary_email emails of
                            Str email \<Rightarrow>
                              if email = [] then Inl (Error ''No email found for GitHub user'')
                              else Inr (userData, email)
                          | _ \<Rightarrow> Inl (Error ''No email found for GitHub user'')))))"

subsection \<open>The upsert block\<close>

text \<open>
  The statements after the \<open>SELECT\<close> of the existing user, given its result: the
  store after them, with the id and the nickname that go into the token.
\<close>

definition upsert_after_select ::
  "user_row option \<Rightarrow> db \<Rightarrow> string \<Rightarrow> user_data \<Rightarrow> thrown + (db \<times> jsv \<times> jsv)" where
  "upsert_after_select existingUser d email userData =
     (case existingUser of
        Some row \<Rightarrow>
          Inr (d, Str (u_id row), js_or (of_column (u_nickname row)) (ud_login userData))
      | None \<Rightarrow>
          (let nickname = js_or Undefined (ud_login userData) in
           case ud_id userData of
             None \<Rightarrow> Inl TypeError
           | Some n \<Rightarrow>
               (let userId = toString n in
                case insert_user d userId email nickname (ud_avatar_url userData) of
                  Inl e \<Rightarrow> Inl e
                | Inr d' \<Rightarrow> Inr (d', Str userId, nickname))))"

definition upsert :: "db \<Rightarrow> string \<Rightarrow> user_data \<Rightarrow> thrown + (db \<times> jsv \<times> jsv)" where
  "upsert d email userData =
     upsert_after_select (select_user_by_email d email) d email userData"

subsection \<open>\<open>GET /api/auth/github/callback\<close>\<close>

definition session_cookie :: "token \<Rightarrow> cookie" where
  "session_cookie t =
     \<lparr>ck_value = t, ck_httpOnly = True, ck_secure = True, ck_sameSite = ''none'',
      ck_maxAge = 7 * 24 * 60 * 60 * 1000\<rparr>"

text \<open>The body of the \<open>try\<close>. No statement after the \<open>INSERT\<close> throws, so a throw
  leaves the store as it was.\<close>

definition callback_try :: "env \<Rightarrow> provider \<Rightarrow> nat \<Rightarrow> db \<Rightarrow> thrown + (db \<times> response)" where
  "callback_try ev p now d =
     (case exchange p of
        Inl e \<Rightarrow> Inl e
      | Inr (userData, email) \<Rightarrow>
          (case select_admitted d email of
             None \<Rightarrow> Inr (d, reply 403 (AccessDenied email))
           | Some isAdmitted \<Rightarrow>
               (case upsert d email userData of
                  Inl e \<Rightarrow> Inl e
                | Inr (d', userId, nickname) \<Rightarrow>
                    (let t = jwt_sign userId (Str email) nickname (ud_avatar_url userData)
                               (JWT_SECRET ev) now
                     in Inr (d', \<lparr>status = 200, content = AuthenticationSuccessful,
                                  set_cookie = Some (session_cookie t)\<rparr>)))))"

definition github_callback ::
  "env \<Rightarrow> string option \<Rightarrow> provider \<Rightarrow> nat \<Rightarrow> db \<Rightarrow> db \<times> response" where
  "github_callback ev code p now d =
     (if \<not> present code \<or> \<not> present (GITHUB_CLIENT_ID ev) \<or> \<not> present (GITHUB_CLIENT_SECRET ev)
      then (d, reply 400 MissingCodeOrCredentials)
      else (case callback_try ev p now d of
              Inl err \<Rightarrow> (d, reply 500 (AuthenticationFailed err))
            | Inr (d', r) \<Rightarrow> (d', r)))"

subsection \<open>The callback beside another writer\<close>

text \<open>
  The callback runs its \<open>SELECT\<close> of the existing user and its \<open>INSERT\<close> without
  an \<open>await\<close> between them, so only a writer outside the process (another server on
  the same database file) can come between the two. \<open>w\<close> is what that writer does
  to the store after the \<open>SELECT\<close>; the statements after the \<open>SELECT\<close> then run
  on \<open>w d\<close>. A throw carries the store it leaves behind.
\<close>

definition callback_try_with_writer ::
  "env \<Rightarrow> provider \<Rightarrow> nat \<Rightarrow> (db \<Rightarrow> db) \<Rightarrow> db \<Rightarrow> (thrown \<times> db) + (db \<times> response)" where
  "callback_try_with_writer ev p now w d =
     (case exchange p of
        Inl e \<Rightarrow> Inl (e, d)
      | Inr (userData, email) \<Rightarrow>
          (case select_admitted d email of
             None \<Rightarrow> Inr (d, reply 403 (AccessDenied email))
           | Some isAdmitted \<Rightarrow>
               (let existingUser = select_user_by_email d email in
                case upsert_after_select existingUser (w d) email userData of
                  Inl e \<Rightarrow> Inl (e, w d)
                | Inr (d', userId, nickname) \<Rightarrow>
                    (let t = jwt_sign userId (Str email) nickname (ud_avatar_url userData)
                               (JWT_SECRET ev) now
                     in Inr (d', \<lparr>status = 200, content = AuthenticationSuccessful,
                                  set_cookie = Some (session_cookie t)\<rparr>)))))"

definition github_callback_with_writer ::
  "env \<Rightarrow> string option \<Rightarrow> provider \<Rightarrow> nat \<Rightarrow> (db \<Rightarrow> db) \<Rightarrow> db \<Rightarrow> db \<times> response" where
  "github_callback_with_writer ev code p now w d =
     (if \<not> present code \<or> \<not> present (GITHUB_CLIENT_ID ev) \<or> \<not> present (GITHUB_CLIENT_SECRET ev)
      then (d, reply 400 MissingCodeOrCredentials)
      else (case callback_try_with_writer ev p now w d of
              Inl (err, d') \<Rightarrow> (d', reply 500 (AuthenticationFailed err))
            | Inr (d', r) \<Rightarrow> (d', r)))"

subsection \<open>The handlers behind \<open>authenticate\<close>\<close>

text \<open>
  \<open>GET /api/auth/me\<close>: the row with the token's id when there is one, the token's
  claims otherwise (no row has the id \<open>NULL\<close>).
\<close>

definition auth_me :: "env \<Rightarrow> token option \<Rightarrow> nat \<Rightarrow> db \<Rightarrow> response" where
  "auth_me ev auth_token now d =
     (case authenticate ev auth_token now of
        Inl r \<Rightarrow> r
      | Inr user \<Rightarrow>
          (case bind_text (c_id user) of
             None \<Rightarrow> reply 200 (JsonClaims user)
           | Some i \<Rightarrow>
               (case select_user_by_id d i of
                  Some dbUser \<Rightarrow> reply 200 (JsonRow dbUser)
                | None \<Rightarrow> reply 200 (JsonClaims user))))"

text \<open>\<open>String.prototype.trim\<close>, on ASCII text: tab, line feed, vertical tab, form
  feed, carriage return and space are stripped from both ends.\<close>

definition js_space :: "char \<Rightarrow> bool" where
  "js_space c = (of_char c \<in> {9, 10, 11, 12, 13, 32 :: nat})"

definition trim :: "string \<Rightarrow> string" where
  "trim s = rev (dropWhile js_space (rev (dropWhile js_space s)))"

text \<open>\<open>PUT /api/users/me/nickname\<close>.\<close>

definition put_nickname :: "env \<Rightarrow> token option \<Rightarrow> jsv \<Rightarrow> nat \<Rightarrow> db \<Rightarrow> db \<times> response" where
  "put_nickname ev auth_token nickname now d =
     (case authenticate ev auth_token now of
        Inl r \<Rightarrow> (d, r)
      | Inr user \<Rightarrow>
          (case nickname of
             Str n \<Rightarrow>
               if n = [] \<or> trim n = [] then (d, reply 400 (JsonError ''Nickname cannot be empty''))
               else (case bind_text (c_id user) of
                       None \<Rightarrow> (d, reply 200 (JsonSuccessNickname n))
                     | Some i \<Rightarrow> (update_nickname d n i, reply 200 (JsonSuccessNickname n)))
           | _ \<Rightarrow> (d, reply 400 (JsonError ''Nickname cannot be empty''))))"

text \<open>\<open>POST /api/admin/admitted\<close>: the insert's exception is caught and answered 400.\<close>

definition admin_admit :: "env \<Rightarrow> token option \<Rightarrow> jsv \<Rightarrow> nat \<Rightarrow> db \<Rightarrow> db \<times> response" where
  "admin_admit ev auth_token email now d =
     (case authenticate ev auth_token now of
        Inl r \<Rightarrow> (d, r)
      | Inr user \<Rightarrow>
          (case email of
             Str e \<Rightarrow>
               if e = [] then (d, reply 400 (JsonError ''Email required''))
               else (case insert_admitted d e of
                       Inr d' \<Rightarrow> (d', reply 200 JsonSuccess)
                     | Inl err \<Rightarrow>
                         (d, reply 400 (JsonError ''Email already admitted or error occurred'')))
           | _ \<Rightarrow> (d, reply 400 (JsonError ''Email required''))))"

text \<open>\<open>DELETE /api/admin/admitted/:email\<close>.\<close>

definition admin_revoke :: "env \<Rightarrow> token option \<Rightarrow> string \<Rightarrow> nat \<Rightarrow> db \<Rightarrow> db \<times> response" where
  "admin_revoke ev auth_token email now d =
     (case authenticate ev auth_token now of
        Inl r \<Rightarrow> (d, r)
      | Inr user \<Rightarrow> (delete_admitted d email, reply 200 JsonSuccess))"

subsection \<open>Requests in sequence\<close>

datatype request =
    Callback "string option" provider
  | PutNickname "token option" jsv
  | Admit "token option" jsv
  | Revoke "token option" string

fun handle :: "env \<Rightarrow> nat \<Rightarrow> request \<Rightarrow> db \<Rightarrow> db \<times> response" where
  "handle ev now (Callback code p) d = github_callback ev code p now d"
| "handle ev now (PutNickname t n) d = put_nickname ev t n now d"
| "handle ev now (Admit t e) d = admin_admit ev t e now d"
| "handle ev now (Revoke t e) d = admin_revoke ev t e now d"

text \<open>The store after a sequence of requests, each with the time it arrives at.\<close>

fun serve :: "env \<Rightarrow> (nat \<times> request) list \<Rightarrow> db \<Rightarrow> db" where
  "serve ev [] d = d"
| "serve ev ((now, r) # rs) d = serve ev rs (fst (handle ev now r d))"

text \<open>A revoke that names the only email left on the list.\<close>

fun revokes_last :: "request \<Rightarrow> db \<Rightarrow> bool" where
  "revokes_last (Revoke t e) d = (set (admitted_users d) \<subseteq> {e})"
| "revokes_last _ d = False"

fun spares_last :: "env \<Rightarrow> (nat \<times> request) list \<Rightarrow> db \<Rightarrow> bool" where
  "spares_last ev [] d = True"
| "spares_last ev ((now, r) # rs) d =
     (\<not> revokes_last r d \<and> spares_last ev rs (fst (handle ev now r d)))"

section \<open>Two initialisations on one store\<close>

text \<open>
  The bootstrap is two statements, a \<open>SELECT COUNT(*)\<close> and an \<open>INSERT\<close>; each is
  atomic in SQLite. An initialiser is at the count, at the insert (it counted zero),
  has started, or has crashed on the uncaught exception of the insert.
\<close>

datatype init_pc = AtCount | AtInsert | Started | Crashed

fun init_step :: "init_pc \<Rightarrow> db \<Rightarrow> init_pc \<times> db" where
  "init_step AtCount d = (if length (admitted_users d) = 0 then (AtInsert, d) else (Started, d))"
| "init_step AtInsert d =
     (case insert_admitted d seed_email of
        Inl e \<Rightarrow> (Crashed, d)
      | Inr d' \<Rightarrow> (Started, d'))"
| "init_step pc d = (pc, d)"

text \<open>A schedule names, step by step, which of the two initialisers moves.\<close>

datatype proc = P1 | P2

fun interleave :: "proc list \<Rightarrow> init_pc \<times> init_pc \<times> db \<Rightarrow> init_pc \<times> init_pc \<times> db" where
  "interleave [] s = s"
| "interleave (P1 # sched) (a, b, d) = (case init_step a d of (a', d') \<Rightarrow> interleave sched (a', b, d'))"
| "interleave (P2 # sched) (a, b, d) = (case init_step b d of (b', d') \<Rightarrow> interleave sched (a, b', d'))"

definition finished :: "init_pc \<Rightarrow> bool" where
  "finished pc = (pc = Started \<or> pc = Crashed)"

text \<open>The number of statements an initialiser has still to run, at most.\<close>

fun steps_left :: "init_pc \<Rightarrow> nat" where
  "steps_left AtCount = 2"
| "steps_left AtInsert = 1"
| "steps_left pc = 0"

section \<open>The primary window's listener\<close>

text \<open>\<open>String.prototype.endsWith\<close> and \<open>String.prototype.includes\<close> (here
  \<open>includes_str\<close>).\<close>

definition endsWith :: "string \<Rightarrow> string \<Rightarrow> bool" where
  "endsWith s t = (length t \<le> length s \<and> drop (length s - length t) s = t)"

fun includes_str :: "string \<Rightarrow> string \<Rightarrow> bool" where
  "includes_str [] t = (t = [])"
| "includes_str (c # cs) t = (take (length t) (c # cs) = t \<or> includes_str cs t)"

text \<open>A message event: its origin and \<open>event.data?.type\<close>.\<close>

record message_event =
  origin :: string
  data_type :: jsv

datatype effect = FetchUser

definition handleMessage :: "message_event \<Rightarrow> effect list" where
  "handleMessage event =
     (if \<not> endsWith (origin event) ''.run.app'' \<and> \<not> includes_str (origin event) ''localhost'' then []
      else if data_type event = Str ''OAUTH_AUTH_SUCCESS'' then [FetchUser]
      else [])"

section \<open>Example inputs\<close>

definition env0 :: env where
  "env0 = \<lparr>GITHUB_CLIENT_ID = Some ''client'', GITHUB_CLIENT_SECRET = Some ''secret'',
            JWT_SECRET_var = None\<rparr>"

text \<open>The replies of a provider account with the given id, login, avatar and one
  primary email.\<close>

definition github_replies :: "nat \<Rightarrow> string \<Rightarrow> string \<Rightarrow> string \<Rightarrow> provider" where
  "github_replies n login avatar email =
     \<lparr>tokenData_access_token = Body (Str ''gho_token''),
      userData_reply = Body \<lparr>ud_id = Some n, ud_login = Str login, ud_avatar_url = Str avatar\<rparr>,
      emails_reply = Body (Array [\<lparr>eo_email = Str email, eo_primary = True\<rparr>])\<rparr>"

definition profile :: "nat \<Rightarrow> string \<Rightarrow> string \<Rightarrow> user_data" where
  "profile n login avatar = \<lparr>ud_id = Some n, ud_login = Str login, ud_avatar_url = Str avatar\<rparr>"

text \<open>Only \<open>a@x.com\<close> admitted, no user yet.\<close>

definition db_fresh :: db where
  "db_fresh = \<lparr>users = [], admitted_users = [''a@x.com'']\<rparr>"

text \<open>\<open>a@x.com\<close> admitted and already a user with a nickname of their own.\<close>

definition db_custom :: db where
  "db_custom = \<lparr>users = [\<lparr>u_id = ''1'', u_email = ''a@x.com'', u_nickname = Some ''custom'',
                            u_avatar_url = Some ''old.png''\<rparr>],
                admitted_users = [''a@x.com'']\<rparr>"

text \<open>Account 7 signed up as \<open>old@x.com\<close>; \<open>a@x.com\<close> is admitted.\<close>

definition db_moved :: db where
  "db_moved = \<lparr>users = [\<lparr>u_id = ''7'', u_email = ''old@x.com'', u_nickname = Some ''h'',
                           u_avatar_url = None\<rparr>],
               admitted_users = [''a@x.com'']\<rparr>"

text \<open>Two writers that come between the \<open>SELECT\<close> and the \<open>INSERT\<close> of a
  login of \<open>a@x.com\<close>: a second login of the same account on another server, and a
  writer that stores \<open>a@x.com\<close> under the id 8.\<close>

definition other_login :: "db \<Rightarrow> db" where
  "other_login d =
     fst (github_callback env0 (Some ''c2'') (github_replies 7 ''h'' ''a.png'' ''a@x.com'') 9 d)"

definition other_writer :: "db \<Rightarrow> db" where
  "other_writer d =
     d\<lparr>users := users d @ [\<lparr>u_id = ''8'', u_email = ''a@x.com'', u_nickname = Some ''w'',
                             u_avatar_url = None\<rparr>]\<rparr>"

text \<open>The store before the first start, and after a bootstrap of it.\<close>

definition db_empty :: db where
  "db_empty = \<lparr>users = [], admitted_users = []\<rparr>"

definition db_seeded :: db where
  "db_seeded = \<lparr>users = [], admitted_users = [seed_email]\<rparr>"

text \<open>The token that the seed user, provider account 7, is issued at time 5.\<close>

definition seed_token :: token where
  "seed_token = jwt_sign (Str ''7'') (Str seed_email) (Str ''h'') (Str ''a.png'') (JWT_SECRET env0) 5"

section \<open>Auxiliary facts\<close>

lemma toString_7: "toString 7 = ''7''"
  by code_simp

lemma exchange_github_replies:
  "email \<noteq> [] \<Longrightarrow>
   exchange (github_replies n login avatar email) = Inr (profile n login avatar, email)"
  by (simp add: exchange_def github_replies_def primary_email_def profile_def)

lemma select_admitted_None: "select_admitted d e = None \<longleftrightarrow> e \<notin> set (admitted_users d)"
  by (auto simp: select_admitted_def find_None_iff)

lemma find_snoc_None:
  "find P xs = None \<Longrightarrow> find P (xs @ [x]) = (if P x then Some x else None)"
  by (induction xs) (auto split: if_splits)

lemma select_user_by_email_None:
  "select_user_by_email d e = None \<longleftrightarrow> e \<notin> u_email ` set (users d)"
  by (auto simp: select_user_by_email_def find_None_iff)

lemma insert_user_Inr:
  "insert_user d i e nn av = Inr d' \<longleftrightarrow>
     i \<notin> u_id ` set (users d) \<and> e \<notin> u_email ` set (users d) \<and>
     d' = d\<lparr>users := users d @
            [\<lparr>u_id = i, u_email = e, u_nickname = bind_text nn, u_avatar_url = bind_text av\<rparr>]\<rparr>"
  by (auto simp: insert_user_def)

text \<open>The two branches of the upsert block.\<close>

lemma upsert_existing:
  "select_user_by_email d e = Some row \<Longrightarrow>
   upsert d e ud = Inr (d, Str (u_id row), js_or (of_column (u_nickname row)) (ud_login ud))"
  by (simp add: upsert_def upsert_after_select_def)

lemma upsert_new:
  "select_user_by_email d e = None \<Longrightarrow>
   upsert d e ud =
     (case ud_id ud of None \<Rightarrow> Inl TypeError
      | Some n \<Rightarrow> (case insert_user d (toString n) e (ud_login ud) (ud_avatar_url ud) of
                    Inl err \<Rightarrow> Inl err
                  | Inr d' \<Rightarrow> Inr (d', Str (toString n), ud_login ud)))"
  by (simp add: upsert_def upsert_after_select_def js_or_def Let_def split: option.splits)

lemma upsert_returns_iff:
  "(\<exists>r. upsert d e ud = Inr r) \<longleftrightarrow>
     select_user_by_email d e \<noteq> None \<or>
     (\<exists>n. ud_id ud = Some n \<and> toString n \<notin> u_id ` set (users d))"
proof (cases "select_user_by_email d e")
  case None
  have "e \<notin> u_email ` set (users d)"
    using None by (simp add: select_user_by_email_None)
  then show ?thesis
    using None
    by (auto simp: upsert_new insert_user_def split: option.splits sum.splits)
next
  case (Some row)
  then show ?thesis by (simp add: upsert_existing)
qed

text \<open>What the callback does once the code and the credentials are there and the
  exchange has resolved an email.\<close>

lemma callback_resolved:
  assumes "present code" "present (GITHUB_CLIENT_ID ev)" "present (GITHUB_CLIENT_SECRET ev)"
    and "exchange p = Inr (userData, e)"
  shows "github_callback ev code p now d =
    (if e \<notin> set (admitted_users d) then (d, reply 403 (AccessDenied e))
     else case upsert d e userData of
            Inl err \<Rightarrow> (d, reply 500 (AuthenticationFailed err))
          | Inr (d', userId, nickname) \<Rightarrow>
              (d', \<lparr>status = 200, content = AuthenticationSuccessful,
                    set_cookie = Some (session_cookie
                      (jwt_sign userId (Str e) nickname (ud_avatar_url userData)
                         (JWT_SECRET ev) now))\<rparr>))"
proof (cases "select_admitted d e")
  case None
  then have "e \<notin> set (admitted_users d)"
    by (simp add: select_admitted_None)
  with None show ?thesis
    using assms by (simp add: github_callback_def callback_try_def)
next
  case (Some a)
  then have "e \<in> set (admitted_users d)"
    using select_admitted_None[of d e] by auto
  with Some show ?thesis
    using assms by (simp add: github_callback_def callback_try_def split: sum.splits prod.splits)
qed

lemma env0_present:
  "present (Some ''c'')" "present (GITHUB_CLIENT_ID env0)" "present (GITHUB_CLIENT_SECRET env0)"
  by (simp_all add: present_def env0_def)

lemmas run_defs =
  upsert_def upsert_after_select_def select_user_by_email_def insert_user_def js_or_def
  of_column_def toString_7 profile_def reply_def db_fresh_def db_custom_def db_moved_def Let_def

section \<open>Admission decides the login\<close>

text \<open>
  C1 (as amended). A login attempt that resolves the email \<open>e\<close> is issued the session
  cookie exactly when \<open>e\<close> is on the allow-list at the moment of the check, compared
  as an exact string, and the upsert does not throw: either a user row with email \<open>e\<close>
  exists already, or the profile carries an id that is not yet a key of \<open>users\<close>.
\<close>

theorem login_cookie_iff_admitted_and_upsert_returns:
  assumes "present code" "present (GITHUB_CLIENT_ID ev)" "present (GITHUB_CLIENT_SECRET ev)"
    and "exchange p = Inr (userData, e)"
  shows "set_cookie (snd (github_callback ev code p now d)) \<noteq> None \<longleftrightarrow>
     e \<in> set (admitted_users d) \<and>
     (select_user_by_email d e \<noteq> None \<or>
      (\<exists>n. ud_id userData = Some n \<and> toString n \<notin> u_id ` set (users d)))"
proof -
  have "set_cookie (snd (github_callback ev code p now d)) \<noteq> None \<longleftrightarrow>
        e \<in> set (admitted_users d) \<and> (\<exists>r. upsert d e userData = Inr r)"
    by (auto simp: callback_resolved[OF assms] reply_def split: sum.splits)
  then show ?thesis by (simp only: upsert_returns_iff)
qed

text \<open>Scenario A: \<open>a@x.com\<close> is admitted and new, and gets the cookie; the same
  address in another letter case is not on the list.\<close>

theorem login_cookie_iff_admitted_and_upsert_returns_witness:
  "present (Some ''c'') \<and> present (GITHUB_CLIENT_ID env0) \<and> present (GITHUB_CLIENT_SECRET env0) \<and>
   exchange (github_replies 7 ''h'' ''a.png'' ''a@x.com'') = Inr (profile 7 ''h'' ''a.png'', ''a@x.com'') \<and>
   set_cookie (snd (github_callback env0 (Some ''c'') (github_replies 7 ''h'' ''a.png'' ''a@x.com'')
                      5 db_fresh)) \<noteq> None \<and>
   exchange (github_replies 7 ''h'' ''a.png'' ''A@x.com'') = Inr (profile 7 ''h'' ''a.png'', ''A@x.com'') \<and>
   set_cookie (snd (github_callback env0 (Some ''c'') (github_replies 7 ''h'' ''a.png'' ''A@x.com'')
                      5 db_fresh)) = None"
proof -
  have x: "exchange (github_replies 7 ''h'' ''a.png'' ''a@x.com'') = Inr (profile 7 ''h'' ''a.png'', ''a@x.com'')"
    by (simp add: exchange_github_replies)
  have y: "exchange (github_replies 7 ''h'' ''a.png'' ''A@x.com'') = Inr (profile 7 ''h'' ''a.png'', ''A@x.com'')"
    by (simp add: exchange_github_replies)
  have a: "set_cookie (snd (github_callback env0 (Some ''c'')
              (github_replies 7 ''h'' ''a.png'' ''a@x.com'') 5 db_fresh)) \<noteq> None"
    using login_cookie_iff_admitted_and_upsert_returns[OF env0_present x, of 5 db_fresh]
    by (simp add: run_defs)
  have b: "set_cookie (snd (github_callback env0 (Some ''c'')
              (github_replies 7 ''h'' ''a.png'' ''A@x.com'') 5 db_fresh)) = None"
    using login_cookie_iff_admitted_and_upsert_returns[OF env0_present y, of 5 db_fresh]
    by (simp add: run_defs)
  show ?thesis using env0_present x y a b by simp
qed

text \<open>
  The claim as first stated, that admission alone decides, fails: account 7 is known
  under \<open>old@x.com\<close> and now resolves to the admitted \<open>a@x.com\<close>; the insert
  violates the primary key and the login ends in a 500 without a cookie.
\<close>

theorem admitted_login_refused:
  "exchange (github_replies 7 ''h'' ''a.png'' ''a@x.com'') = Inr (profile 7 ''h'' ''a.png'', ''a@x.com'') \<and>
   ''a@x.com'' \<in> set (admitted_users db_moved) \<and>
   github_callback env0 (Some ''c'') (github_replies 7 ''h'' ''a.png'' ''a@x.com'') 5 db_moved =
     (db_moved, \<lparr>status = 500, content = AuthenticationFailed SqliteError, set_cookie = None\<rparr>)"
proof -
  have x: "exchange (github_replies 7 ''h'' ''a.png'' ''a@x.com'') = Inr (profile 7 ''h'' ''a.png'', ''a@x.com'')"
    by (simp add: exchange_github_replies)
  show ?thesis
    by (simp add: x callback_resolved[OF env0_present x] run_defs)
qed

section \<open>A denied login changes nothing\<close>

text \<open>
  C2. When the resolved email is not on the allow-list, the callback answers with the
  403 page naming that email, sets no cookie, and leaves the store (so the \<open>users\<close>
  table too) as it was.
\<close>

theorem denied_login_403_store_unchanged:
  assumes "present code" "present (GITHUB_CLIENT_ID ev)" "present (GITHUB_CLIENT_SECRET ev)"
    and "exchange p = Inr (userData, e)"
    and "e \<notin> set (admitted_users d)"
  shows "fst (github_callback ev code p now d) = d \<and>
         status (snd (github_callback ev code p now d)) = 403 \<and>
         content (snd (github_callback ev code p now d)) = AccessDenied e \<and>
         set_cookie (snd (github_callback ev code p now d)) = None"
  using assms(5) by (simp add: callback_resolved[OF assms(1-4)] reply_def)

text \<open>Scenario B: only \<open>a@x.com\<close> is admitted and the login resolves \<open>b@x.com\<close>.\<close>

theorem denied_login_403_store_unchanged_witness:
  "present (Some ''c'') \<and> present (GITHUB_CLIENT_ID env0) \<and> present (GITHUB_CLIENT_SECRET env0) \<and>
   exchange (github_replies 7 ''h'' ''a.png'' ''b@x.com'') = Inr (profile 7 ''h'' ''a.png'', ''b@x.com'') \<and>
   ''b@x.com'' \<notin> set (admitted_users db_fresh) \<and>
   github_callback env0 (Some ''c'') (github_replies 7 ''h'' ''a.png'' ''b@x.com'') 5 db_fresh =
     (db_fresh, \<lparr>status = 403, content = AccessDenied ''b@x.com'', set_cookie = None\<rparr>)"
proof -
  have x: "exchange (github_replies 7 ''h'' ''a.png'' ''b@x.com'') = Inr (profile 7 ''h'' ''a.png'', ''b@x.com'')"
    by (simp add: exchange_github_replies)
  have n: "''b@x.com'' \<notin> set (admitted_users db_fresh)"
    by (simp add: db_fresh_def)
  from denied_login_403_store_unchanged[OF env0_present x n, of 5]
  have "github_callback env0 (Some ''c'') (github_replies 7 ''h'' ''a.png'' ''b@x.com'') 5 db_fresh =
     (db_fresh, \<lparr>status = 403, content = AccessDenied ''b@x.com'', set_cookie = None\<rparr>)"
    by (cases "github_callback env0 (Some ''c'') (github_replies 7 ''h'' ''a.png'' ''b@x.com'') 5 db_fresh")
       (auto intro: response.equality)
  then show ?thesis using env0_present x n by simp
qed

section \<open>The upsert is idempotent and the nickname sticks\<close>

text \<open>
  C3. When the upsert for the email \<open>e\<close> has returned, a second upsert for \<open>e\<close>, whatever
  profile the provider reports then, returns the same id and leaves the store as it was:
  the row of \<open>e\<close> keeps its id and the nickname stored with it. That nickname, when it
  is a non-empty string, is also the one returned, and on a first creation it is the
  provider's login of that time as the database stores it.
\<close>

theorem upsert_twice_same_id_nickname_kept:
  assumes "upsert d e ud = Inr (d1, i1, n1)"
  shows "\<exists>row n2. select_user_by_email d1 e = Some row \<and> Str (u_id row) = i1 \<and>
           upsert d1 e ud' = Inr (d1, i1, n2) \<and>
           (truthy (of_column (u_nickname row)) \<longrightarrow> n2 = of_column (u_nickname row)) \<and>
           (select_user_by_email d e = None \<longrightarrow> u_nickname row = bind_text (ud_login ud))"
proof (cases "select_user_by_email d e")
  case (Some row)
  with assms have "d1 = d" "i1 = Str (u_id row)"
    by (simp_all add: upsert_existing)
  with Some show ?thesis
    by (simp add: upsert_existing js_or_def)
next
  case None
  with assms obtain n where n: "ud_id ud = Some n"
    and ins: "insert_user d (toString n) e (ud_login ud) (ud_avatar_url ud) = Inr d1"
    and i1: "i1 = Str (toString n)"
    by (auto simp: upsert_new split: option.splits sum.splits)
  from ins have d1: "d1 = d\<lparr>users := users d @
               [\<lparr>u_id = toString n, u_email = e, u_nickname = bind_text (ud_login ud),
                 u_avatar_url = bind_text (ud_avatar_url ud)\<rparr>]\<rparr>"
    by (simp add: insert_user_Inr)
  have sel: "select_user_by_email d1 e =
               Some \<lparr>u_id = toString n, u_email = e, u_nickname = bind_text (ud_login ud),
                     u_avatar_url = bind_text (ud_avatar_url ud)\<rparr>"
    using None unfolding d1 select_user_by_email_def
    by (simp add: find_snoc_None)
  show ?thesis
    using None i1
    by (simp add: sel upsert_existing js_or_def)
qed

text \<open>Scenario C: the user with nickname \<open>custom\<close> logs in again while the provider
  reports the login \<open>newhandle\<close>.\<close>

theorem upsert_twice_same_id_nickname_kept_witness:
  "upsert db_fresh ''a@x.com'' (profile 7 ''h'' ''a.png'') =
     Inr (\<lparr>users = [\<lparr>u_id = ''7'', u_email = ''a@x.com'', u_nickname = Some ''h'',
                      u_avatar_url = Some ''a.png''\<rparr>],
           admitted_users = [''a@x.com'']\<rparr>, Str ''7'', Str ''h'') \<and>
   upsert \<lparr>users = [\<lparr>u_id = ''7'', u_email = ''a@x.com'', u_nickname = Some ''h'',
                     u_avatar_url = Some ''a.png''\<rparr>],
           admitted_users = [''a@x.com'']\<rparr> ''a@x.com'' (profile 7 ''newhandle'' ''b.png'') =
     Inr (\<lparr>users = [\<lparr>u_id = ''7'', u_email = ''a@x.com'', u_nickname = Some ''h'',
                      u_avatar_url = Some ''a.png''\<rparr>],
           admitted_users = [''a@x.com'']\<rparr>, Str ''7'', Str ''h'')"
proof -
  have h: "upsert db_fresh ''a@x.com'' (profile 7 ''h'' ''a.png'') =
     Inr (\<lparr>users = [\<lparr>u_id = ''7'', u_email = ''a@x.com'', u_nickname = Some ''h'',
                      u_avatar_url = Some ''a.png''\<rparr>],
           admitted_users = [''a@x.com'']\<rparr>, Str ''7'', Str ''h'')"
    by (simp add: run_defs)
  from upsert_twice_same_id_nickname_kept[OF h, of "profile 7 ''newhandle'' ''b.png''"]
  show ?thesis
    using h by (auto simp: select_user_by_email_def of_column_def)
qed

section \<open>Issued tokens validate to their claims\<close>

text \<open>
  C4. The token signed at login for an id, email, nickname and avatar passes
  \<open>authenticate\<close>, under the same secret and before its expiry, and the claims handed
  to the handlers carry exactly those four values.
\<close>

theorem authenticate_issued_token:
  assumes "now' < now + seven_days"
  shows "authenticate ev (Some (jwt_sign i email nickname avatar (JWT_SECRET ev) now)) now' =
          Inr \<lparr>c_id = i, c_email = email, c_nickname = nickname, c_avatar_url = avatar,
               c_iat = now, c_exp = now + seven_days\<rparr>"
  using assms by (simp add: authenticate_def jwt_sign_def)

theorem authenticate_issued_token_witness:
  "(6::nat) < 5 + seven_days \<and>
   authenticate env0 (Some (jwt_sign (Str ''7'') (Str ''a@x.com'') (Str ''h'') (Str ''a.png'')
                              (JWT_SECRET env0) 5)) 6 =
     Inr \<lparr>c_id = Str ''7'', c_email = Str ''a@x.com'', c_nickname = Str ''h'',
          c_avatar_url = Str ''a.png'', c_iat = 5, c_exp = 604805\<rparr>"
proof -
  have h: "(6::nat) < 5 + seven_days"
    by (simp add: seven_days_def)
  show ?thesis
    using h authenticate_issued_token[OF h, of env0 "Str ''7''" "Str ''a@x.com''" "Str ''h''" "Str ''a.png''"]
    by (simp add: seven_days_def)
qed

text \<open>Scenario A, continued: with that token \<open>/api/auth/me\<close> answers with the row
  that the first login of \<open>a@x.com\<close> created.\<close>

lemma auth_me_after_first_login:
  "auth_me env0 (Some (jwt_sign (Str ''7'') (Str ''a@x.com'') (Str ''h'') (Str ''a.png'')
                         (JWT_SECRET env0) 5)) 6
     \<lparr>users = [\<lparr>u_id = ''7'', u_email = ''a@x.com'', u_nickname = Some ''h'',
                   u_avatar_url = Some ''a.png''\<rparr>], admitted_users = [''a@x.com'']\<rparr> =
   \<lparr>status = 200,
    content = JsonRow \<lparr>u_id = ''7'', u_email = ''a@x.com'', u_nickname = Some ''h'',
                       u_avatar_url = Some ''a.png''\<rparr>,
    set_cookie = None\<rparr>"
  by (simp add: auth_me_def authenticate_def jwt_sign_def seven_days_def select_user_by_id_def
        reply_def)

section \<open>Missing code or credentials\<close>

text \<open>
  C8 (as amended). When the authorization code or one of the two provider credentials
  is absent or empty, the callback answers 400 with the text "Missing code or
  credentials", before any call to the provider; the store is untouched and no cookie
  is set.
\<close>

theorem missing_code_or_credentials_400:
  assumes "\<not> present code \<or> \<not> present (GITHUB_CLIENT_ID ev) \<or> \<not> present (GITHUB_CLIENT_SECRET ev)"
  shows "github_callback ev code p now d =
           (d, \<lparr>status = 400, content = MissingCodeOrCredentials, set_cookie = None\<rparr>)"
  using assms by (auto simp: github_callback_def reply_def)

theorem missing_code_or_credentials_400_witness:
  "\<not> present (GITHUB_CLIENT_SECRET (env0\<lparr>GITHUB_CLIENT_SECRET := None\<rparr>)) \<and>
   github_callback (env0\<lparr>GITHUB_CLIENT_SECRET := None\<rparr>) (Some ''c'')
       (github_replies 7 ''h'' ''a.png'' ''a@x.com'') 5 db_fresh =
     (db_fresh, \<lparr>status = 400, content = MissingCodeOrCredentials, set_cookie = None\<rparr>)"
proof -
  have h: "\<not> present (GITHUB_CLIENT_SECRET (env0\<lparr>GITHUB_CLIENT_SECRET := None\<rparr>))"
    by (simp add: present_def)
  then have "\<not> present (Some ''c'') \<or> \<not> present (GITHUB_CLIENT_ID (env0\<lparr>GITHUB_CLIENT_SECRET := None\<rparr>))
      \<or> \<not> present (GITHUB_CLIENT_SECRET (env0\<lparr>GITHUB_CLIENT_SECRET := None\<rparr>))"
    by simp
  from missing_code_or_credentials_400[OF this] h show ?thesis
    by simp
qed

text \<open>The status is 400, not 500, both without a code and without a client id.\<close>

theorem missing_code_status_is_not_500:
  "status (snd (github_callback env0 None (github_replies 7 ''h'' ''a.png'' ''a@x.com'') 5 db_fresh)) = 400 \<and>
   status (snd (github_callback (env0\<lparr>GITHUB_CLIENT_ID := None\<rparr>) (Some ''c'')
                  (github_replies 7 ''h'' ''a.png'' ''a@x.com'') 5 db_fresh)) = 400 \<and>
   (400::nat) \<noteq> 500"
  by (simp add: github_callback_def present_def reply_def env0_def)

section \<open>What an issued token carries\<close>

lemma put_nickname_no_cookie: "set_cookie (snd (put_nickname ev t n now d)) = None"
  by (auto simp: put_nickname_def authenticate_def reply_def split: sum.splits jsv.splits option.splits)

lemma select_user_by_email_Some:
  "select_user_by_email d e = Some row \<Longrightarrow> u_email row = e"
  by (auto simp: select_user_by_email_def find_Some_iff)

lemma upsert_row:
  assumes "upsert d e ud = Inr (d', i, n)"
  obtains row where "select_user_by_email d' e = Some row"
    and "i = Str (u_id row)" and "u_email row = e"
    and "truthy (of_column (u_nickname row)) \<longrightarrow> n = of_column (u_nickname row)"
    and "select_user_by_email d e = None \<longrightarrow>
           bind_text n = u_nickname row \<and> bind_text (ud_avatar_url ud) = u_avatar_url row"
proof (cases "select_user_by_email d e")
  case (Some row)
  from assms have eq: "d' = d" "i = Str (u_id row)"
    "n = js_or (of_column (u_nickname row)) (ud_login ud)"
    by (simp_all add: upsert_existing[OF Some])
  have e: "u_email row = e"
    by (rule select_user_by_email_Some[OF Some])
  have s: "select_user_by_email d' e = Some row"
    using Some eq(1) by simp
  have t: "truthy (of_column (u_nickname row)) \<longrightarrow> n = of_column (u_nickname row)"
    using eq(3) by (simp add: js_or_def)
  have f: "select_user_by_email d e = None \<longrightarrow>
           bind_text n = u_nickname row \<and> bind_text (ud_avatar_url ud) = u_avatar_url row"
    using Some by simp
  show thesis by (rule that[OF s eq(2) e t f])
next
  case None
  from assms obtain k where k: "ud_id ud = Some k"
    by (cases "ud_id ud") (simp_all add: upsert_new[OF None])
  from assms k have ins: "insert_user d (toString k) e (ud_login ud) (ud_avatar_url ud) = Inr d'"
    and i: "i = Str (toString k)" and n: "n = ud_login ud"
    by (simp_all add: upsert_new[OF None] split: sum.splits)
  let ?row = "\<lparr>u_id = toString k, u_email = e, u_nickname = bind_text (ud_login ud),
               u_avatar_url = bind_text (ud_avatar_url ud)\<rparr>"
  from ins have d': "d' = d\<lparr>users := users d @ [?row]\<rparr>"
    by (simp add: insert_user_Inr)
  have s: "select_user_by_email d' e = Some ?row"
    using None unfolding d' select_user_by_email_def
    by (simp add: find_snoc_None)
  have i': "i = Str (u_id ?row)" using i by simp
  have e: "u_email ?row = e" by simp
  have t: "truthy (of_column (u_nickname ?row)) \<longrightarrow> n = of_column (u_nickname ?row)"
    using n by (cases "ud_login ud") (simp_all add: of_column_def)
  have f: "select_user_by_email d e = None \<longrightarrow>
           bind_text n = u_nickname ?row \<and> bind_text (ud_avatar_url ud) = u_avatar_url ?row"
    using n by simp
  show thesis by (rule that[OF s i' e t f])
qed

lemma JWT_SECRET_env0: "JWT_SECRET env0 = ''super-secret-key-for-dev''"
  by (simp add: JWT_SECRET_def env0_def)

text \<open>
  C5 (as amended). The claims of a token issued by a successful login are fixed at
  issuance: the id and the email are those of the user row as stored at that moment;
  the nickname is the row's nickname whenever that is a non-empty string; the avatar is
  the one the provider reports at this login; when the row was created by this login,
  nickname and avatar are the values stored in it; the expiry is issuance plus seven
  days. Until it expires the
  token validates to these same claims, whatever is written to the store afterwards
  (validation does not read the store), and a nickname update issues no new cookie.
\<close>

theorem issued_claims_follow_row_and_provider:
  assumes "present code" "present (GITHUB_CLIENT_ID ev)" "present (GITHUB_CLIENT_SECRET ev)"
    and "exchange p = Inr (userData, e)"
    and "github_callback ev code p now d = (d', r)"
    and "set_cookie r = Some ck"
  shows "\<exists>c row. ck_value ck = Jwt c (JWT_SECRET ev) \<and> select_user_by_email d' e = Some row \<and>
           c_id c = Str (u_id row) \<and> c_email c = Str (u_email row) \<and>
           (truthy (of_column (u_nickname row)) \<longrightarrow> c_nickname c = of_column (u_nickname row)) \<and>
           c_avatar_url c = ud_avatar_url userData \<and>
           (select_user_by_email d e = None \<longrightarrow>
              bind_text (c_nickname c) = u_nickname row \<and>
              bind_text (c_avatar_url c) = u_avatar_url row) \<and>
           c_iat c = now \<and> c_exp c = now + seven_days \<and>
           (\<forall>now'. now' < now + seven_days \<longrightarrow> authenticate ev (Some (ck_value ck)) now' = Inr c) \<and>
           (\<forall>t n now' d''. set_cookie (snd (put_nickname ev t n now' d'')) = None)"
proof -
  from assms(5,6) obtain i n where adm: "e \<in> set (admitted_users d)"
    and up: "upsert d e userData = Inr (d', i, n)"
    and ck: "ck = session_cookie (jwt_sign i (Str e) n (ud_avatar_url userData) (JWT_SECRET ev) now)"
    by (auto simp: callback_resolved[OF assms(1-4)] reply_def split: if_splits sum.splits)
  from up obtain row where row: "select_user_by_email d' e = Some row"
    "i = Str (u_id row)" "u_email row = e"
    "truthy (of_column (u_nickname row)) \<longrightarrow> n = of_column (u_nickname row)"
    "select_user_by_email d e = None \<longrightarrow>
              bind_text n = u_nickname row \<and> bind_text (ud_avatar_url userData) = u_avatar_url row"
    by (rule upsert_row)
  let ?c = "\<lparr>c_id = i, c_email = Str e, c_nickname = n, c_avatar_url = ud_avatar_url userData,
             c_iat = now, c_exp = now + seven_days\<rparr>"
  have v: "ck_value ck = Jwt ?c (JWT_SECRET ev)"
    by (simp add: ck session_cookie_def jwt_sign_def)
  have a: "\<forall>now'. now' < now + seven_days \<longrightarrow> authenticate ev (Some (ck_value ck)) now' = Inr ?c"
    by (simp add: v authenticate_def)
  show ?thesis
  proof (intro exI conjI)
    show "ck_value ck = Jwt ?c (JWT_SECRET ev)" by (rule v)
    show "select_user_by_email d' e = Some row" by (rule row(1))
    show "c_id ?c = Str (u_id row)" using row(2) by simp
    show "c_email ?c = Str (u_email row)" using row(3) by simp
    show "truthy (of_column (u_nickname row)) \<longrightarrow> c_nickname ?c = of_column (u_nickname row)"
      using row(4) by simp
    show "c_avatar_url ?c = ud_avatar_url userData" by simp
    show "select_user_by_email d e = None \<longrightarrow>
            bind_text (c_nickname ?c) = u_nickname row \<and>
            bind_text (c_avatar_url ?c) = u_avatar_url row"
      using row(5) by simp
    show "c_iat ?c = now" by simp
    show "c_exp ?c = now + seven_days" by simp
    show "\<forall>now'. now' < now + seven_days \<longrightarrow> authenticate ev (Some (ck_value ck)) now' = Inr ?c"
      by (rule a)
    show "\<forall>t n now' d''. set_cookie (snd (put_nickname ev t n now' d'')) = None"
      by (simp add: put_nickname_no_cookie)
  qed
qed

text \<open>Scenario A: a first login of \<open>a@x.com\<close>, validated one second later.\<close>

theorem issued_claims_follow_row_and_provider_witness:
  "present (Some ''c'') \<and> present (GITHUB_CLIENT_ID env0) \<and> present (GITHUB_CLIENT_SECRET env0) \<and>
   exchange (github_replies 7 ''h'' ''a.png'' ''a@x.com'') = Inr (profile 7 ''h'' ''a.png'', ''a@x.com'') \<and>
   github_callback env0 (Some ''c'') (github_replies 7 ''h'' ''a.png'' ''a@x.com'') 5 db_fresh =
     (\<lparr>users = [\<lparr>u_id = ''7'', u_email = ''a@x.com'', u_nickname = Some ''h'',
                   u_avatar_url = Some ''a.png''\<rparr>], admitted_users = [''a@x.com'']\<rparr>,
      \<lparr>status = 200, content = AuthenticationSuccessful,
       set_cookie = Some (session_cookie (jwt_sign (Str ''7'') (Str ''a@x.com'') (Str ''h'')
                            (Str ''a.png'') (JWT_SECRET env0) 5))\<rparr>) \<and>
   authenticate env0 (Some (jwt_sign (Str ''7'') (Str ''a@x.com'') (Str ''h'') (Str ''a.png'')
                              (JWT_SECRET env0) 5)) 6 =
     Inr \<lparr>c_id = Str ''7'', c_email = Str ''a@x.com'', c_nickname = Str ''h'',
          c_avatar_url = Str ''a.png'', c_iat = 5, c_exp = 604805\<rparr>"
proof -
  let ?t = "jwt_sign (Str ''7'') (Str ''a@x.com'') (Str ''h'') (Str ''a.png'') (JWT_SECRET env0) 5"
  let ?r = "\<lparr>status = 200, content = AuthenticationSuccessful,
             set_cookie = Some (session_cookie ?t)\<rparr>"
  let ?d = "\<lparr>users = [\<lparr>u_id = ''7'', u_email = ''a@x.com'', u_nickname = Some ''h'',
                   u_avatar_url = Some ''a.png''\<rparr>], admitted_users = [''a@x.com'']\<rparr>"
  have x: "exchange (github_replies 7 ''h'' ''a.png'' ''a@x.com'') = Inr (profile 7 ''h'' ''a.png'', ''a@x.com'')"
    by (simp add: exchange_github_replies)
  have run: "github_callback env0 (Some ''c'') (github_replies 7 ''h'' ''a.png'' ''a@x.com'') 5 db_fresh
               = (?d, ?r)"
    by (simp add: callback_resolved[OF env0_present x] run_defs)
  have sc: "set_cookie ?r = Some (session_cookie ?t)"
    by simp
  from issued_claims_follow_row_and_provider[OF env0_present x run sc]
  have "\<exists>c. ck_value (session_cookie ?t) = Jwt c (JWT_SECRET env0) \<and>
          (\<forall>now'. now' < 5 + seven_days \<longrightarrow>
             authenticate env0 (Some (ck_value (session_cookie ?t))) now' = Inr c)"
    by (elim exE conjE) (intro exI conjI, assumption+)
  then obtain c where c: "ck_value (session_cookie ?t) = Jwt c (JWT_SECRET env0) \<and>
          (\<forall>now'. now' < 5 + seven_days \<longrightarrow>
             authenticate env0 (Some (ck_value (session_cookie ?t))) now' = Inr c)" ..
  then have "c = \<lparr>c_id = Str ''7'', c_email = Str ''a@x.com'', c_nickname = Str ''h'',
          c_avatar_url = Str ''a.png'', c_iat = 5, c_exp = 604805\<rparr>"
    by (simp add: session_cookie_def jwt_sign_def seven_days_def)
  moreover have "(6::nat) < 5 + seven_days"
    by (simp add: seven_days_def)
  then have "authenticate env0 (Some (ck_value (session_cookie ?t))) 6 = Inr c"
    using c[THEN conjunct2, rule_format, of 6] by simp
  ultimately have "authenticate env0 (Some ?t) 6 =
     Inr \<lparr>c_id = Str ''7'', c_email = Str ''a@x.com'', c_nickname = Str ''h'',
          c_avatar_url = Str ''a.png'', c_iat = 5, c_exp = 604805\<rparr>"
    by (simp add: session_cookie_def)
  then show ?thesis
    using env0_present x run by simp
qed

text \<open>
  The claim as first stated fails for the avatar: the user \<open>a@x.com\<close> has the stored
  avatar \<open>old.png\<close>, the provider now reports \<open>new.png\<close>; the token carries
  \<open>new.png\<close> while the row, which this login does not write, keeps \<open>old.png\<close>.
\<close>

theorem issued_avatar_differs_from_row:
  "github_callback env0 (Some ''c'') (github_replies 7 ''newhandle'' ''new.png'' ''a@x.com'') 5 db_custom =
     (db_custom,
      \<lparr>status = 200, content = AuthenticationSuccessful,
       set_cookie = Some (session_cookie (Jwt \<lparr>c_id = Str ''1'', c_email = Str ''a@x.com'',
          c_nickname = Str ''custom'', c_avatar_url = Str ''new.png'', c_iat = 5, c_exp = 604805\<rparr>
          ''super-secret-key-for-dev''))\<rparr>) \<and>
   select_user_by_email db_custom ''a@x.com'' =
     Some \<lparr>u_id = ''1'', u_email = ''a@x.com'', u_nickname = Some ''custom'', u_avatar_url = Some ''old.png''\<rparr> \<and>
   of_column (Some ''old.png'') \<noteq> Str ''new.png''"
proof -
  have x: "exchange (github_replies 7 ''newhandle'' ''new.png'' ''a@x.com'') = Inr (profile 7 ''newhandle'' ''new.png'', ''a@x.com'')"
    by (simp add: exchange_github_replies)
  show ?thesis
    by (simp add: callback_resolved[OF env0_present x] run_defs jwt_sign_def JWT_SECRET_env0 seven_days_def)
qed

section \<open>The allow-list after the bootstrap\<close>

lemma bootstrap_nonempty: "bootstrap d0 = Inr d \<Longrightarrow> admitted_users d \<noteq> []"
  by (auto simp: bootstrap_def insert_admitted_def Let_def split: if_splits)

lemma insert_user_admitted: "insert_user d i e n a = Inr d' \<Longrightarrow> admitted_users d' = admitted_users d"
  by (auto simp: insert_user_Inr)

lemma upsert_admitted: "upsert d e ud = Inr (d', i, n) \<Longrightarrow> admitted_users d' = admitted_users d"
  by (cases "select_user_by_email d e")
     (auto simp: upsert_new upsert_existing insert_user_admitted split: option.splits sum.splits)

lemma callback_try_admitted:
  "callback_try ev p now d = Inr (d', r) \<Longrightarrow> admitted_users d' = admitted_users d"
  by (auto simp: callback_try_def Let_def upsert_admitted split: sum.splits prod.splits option.splits)

lemma github_callback_admitted:
  "admitted_users (fst (github_callback ev code p now d)) = admitted_users d"
  by (auto simp: github_callback_def callback_try_admitted split: sum.splits)

lemma put_nickname_admitted:
  "admitted_users (fst (put_nickname ev t n now d)) = admitted_users d"
  by (auto simp: put_nickname_def update_nickname_def split: sum.splits jsv.splits option.splits)

lemma admin_admit_nonempty:
  "admitted_users d \<noteq> [] \<Longrightarrow> admitted_users (fst (admin_admit ev t e now d)) \<noteq> []"
  by (auto simp: admin_admit_def insert_admitted_def split: sum.splits jsv.splits if_splits)

lemma admin_revoke_nonempty:
  "\<not> set (admitted_users d) \<subseteq> {e} \<Longrightarrow> admitted_users (fst (admin_revoke ev t e now d)) \<noteq> []"
  by (auto simp: admin_revoke_def delete_admitted_def filter_empty_conv split: sum.splits)

lemma handle_nonempty:
  "admitted_users d \<noteq> [] \<Longrightarrow> \<not> revokes_last r d \<Longrightarrow> admitted_users (fst (handle ev now r d)) \<noteq> []"
  by (cases r) (simp_all add: github_callback_admitted put_nickname_admitted admin_admit_nonempty admin_revoke_nonempty)

lemma serve_nonempty:
  "admitted_users d \<noteq> [] \<Longrightarrow> spares_last ev rs d \<Longrightarrow> admitted_users (serve ev rs d) \<noteq> []"
proof (induction rs arbitrary: d)
  case Nil
  then show ?case by simp
next
  case (Cons x rs)
  obtain now r where x: "x = (now, r)" by (cases x)
  from Cons.prems x have "admitted_users (fst (handle ev now r d)) \<noteq> []"
    by (simp add: handle_nonempty)
  with Cons.IH Cons.prems x show ?case by simp
qed

lemma exchange_seed:
  "exchange (github_replies 7 ''h'' ''a.png'' seed_email) = Inr (profile 7 ''h'' ''a.png'', seed_email)"
  by (simp add: exchange_github_replies seed_email_def)

lemma seed_login:
  "github_callback env0 (Some ''c'') (github_replies 7 ''h'' ''a.png'' seed_email) 5 db_seeded =
     (\<lparr>users = [\<lparr>u_id = ''7'', u_email = seed_email, u_nickname = Some ''h'', u_avatar_url = Some ''a.png''\<rparr>],
       admitted_users = [seed_email]\<rparr>,
      \<lparr>status = 200, content = AuthenticationSuccessful, set_cookie = Some (session_cookie seed_token)\<rparr>)"
  by (simp add: callback_resolved[OF env0_present exchange_seed] run_defs db_seeded_def seed_token_def)

text \<open>
  C6 (as amended). After the bootstrap the allow-list is not empty, and it stays
  non-empty along every sequence of logins, nickname updates, admissions and revocations
  in which no revocation names the only email left on the list.
\<close>

theorem allow_list_nonempty_while_last_entry_spared:
  assumes "bootstrap d0 = Inr d" and "spares_last ev rs d"
  shows "admitted_users (serve ev rs d) \<noteq> []"
  using assms by (simp add: serve_nonempty bootstrap_nonempty)

text \<open>The seed user logs in, admits \<open>b@x.com\<close> and then revokes the seed.\<close>

theorem allow_list_nonempty_while_last_entry_spared_witness:
  "bootstrap db_empty = Inr db_seeded \<and>
   spares_last env0 [(5, Callback (Some ''c'') (github_replies 7 ''h'' ''a.png'' seed_email)),
                     (6, Admit (Some seed_token) (Str ''b@x.com'')),
                     (7, Revoke (Some seed_token) seed_email)] db_seeded \<and>
   admitted_users (serve env0 [(5, Callback (Some ''c'') (github_replies 7 ''h'' ''a.png'' seed_email)),
                     (6, Admit (Some seed_token) (Str ''b@x.com'')),
                     (7, Revoke (Some seed_token) seed_email)] db_seeded) \<noteq> []"
proof -
  have b: "bootstrap db_empty = Inr db_seeded"
    by (simp add: bootstrap_def db_empty_def db_seeded_def insert_admitted_def)
  have a: "authenticate env0 (Some seed_token) 6 =
             Inr \<lparr>c_id = Str ''7'', c_email = Str seed_email, c_nickname = Str ''h'',
                  c_avatar_url = Str ''a.png'', c_iat = 5, c_exp = 5 + seven_days\<rparr>"
    by (simp add: authenticate_def seed_token_def jwt_sign_def seven_days_def)
  have s: "spares_last env0 [(5, Callback (Some ''c'') (github_replies 7 ''h'' ''a.png'' seed_email)),
                     (6, Admit (Some seed_token) (Str ''b@x.com'')),
                     (7, Revoke (Some seed_token) seed_email)] db_seeded"
  proof -
    have ne: "''b@x.com'' \<noteq> seed_email"
      by (simp add: seed_email_def)
    show ?thesis
      using ne by (simp add: seed_login admin_admit_def a insert_admitted_def)
  qed
  from allow_list_nonempty_while_last_entry_spared[OF b s] b s show ?thesis
    by simp
qed

text \<open>
  The claim as first stated fails: the revocation has no guard. From the empty store
  the bootstrap seeds the list, the seed user logs in and, with the token of that
  login, revokes the seed: the list is empty.
\<close>

theorem revoking_seed_empties_allow_list:
  "bootstrap db_empty = Inr db_seeded \<and>
   set_cookie (snd (github_callback env0 (Some ''c'') (github_replies 7 ''h'' ''a.png'' seed_email) 5 db_seeded))
     = Some (session_cookie seed_token) \<and>
   admitted_users (serve env0 [(5, Callback (Some ''c'') (github_replies 7 ''h'' ''a.png'' seed_email)),
                               (6, Revoke (Some seed_token) seed_email)] db_seeded) = []"
proof -
  have b: "bootstrap db_empty = Inr db_seeded"
    by (simp add: bootstrap_def db_empty_def db_seeded_def insert_admitted_def)
  have a: "authenticate env0 (Some seed_token) 6 \<noteq> Inl (reply 401 (JsonError ''Invalid token''))"
    by (simp add: authenticate_def seed_token_def jwt_sign_def seven_days_def)
  have s: "admitted_users (serve env0 [(5, Callback (Some ''c'') (github_replies 7 ''h'' ''a.png'' seed_email)),
                               (6, Revoke (Some seed_token) seed_email)] db_seeded) = []"
    by (simp add: seed_login admin_revoke_def authenticate_def seed_token_def jwt_sign_def
          seven_days_def delete_admitted_def)
  show ?thesis using b s by (simp add: seed_login)
qed

section \<open>The listener's origin check\<close>

lemma endsWith_suffix: "endsWith s t \<longleftrightarrow> suffix t s"
proof
  assume "endsWith s t"
  then have "s = take (length s - length t) s @ t"
    by (metis append_take_drop_id endsWith_def)
  then show "suffix t s" by (metis suffixI)
next
  assume "suffix t s"
  then obtain zs where "s = zs @ t" by (auto simp: suffix_def)
  then show "endsWith s t" by (simp add: endsWith_def)
qed

lemma take_prefix: "take (length t) s = t \<longleftrightarrow> prefix t s"
  by (metis append_eq_conv_conj prefix_def)

lemma includes_str_sublist: "includes_str s t \<longleftrightarrow> sublist t s"
  by (induction s) (auto simp: sublist_Cons_right take_prefix simp del: take_Suc_Cons)

text \<open>
  C7 (as amended). The listener calls \<open>fetchUser\<close> exactly when the origin of the
  message ends in \<open>.run.app\<close> or contains \<open>localhost\<close>, and the type tag of the
  payload is \<open>OAUTH_AUTH_SUCCESS\<close>; a message whose origin passes neither test has
  no effect at all. The test reads the origin as a string and does not compare it with
  the host of the application.
\<close>

theorem listener_fetches_iff_origin_and_tag:
  "(FetchUser \<in> set (handleMessage event) \<longleftrightarrow>
      (suffix ''.run.app'' (origin event) \<or> sublist ''localhost'' (origin event)) \<and>
      data_type event = Str ''OAUTH_AUTH_SUCCESS'') \<and>
   (\<not> (suffix ''.run.app'' (origin event) \<or> sublist ''localhost'' (origin event)) \<longrightarrow>
      handleMessage event = [])"
  by (simp add: handleMessage_def endsWith_suffix includes_str_sublist)

theorem listener_fetches_iff_origin_and_tag_witness:
  "\<not> (suffix ''.run.app'' ''https://evil.example.com'' \<or> sublist ''localhost'' ''https://evil.example.com'') \<and>
   handleMessage \<lparr>origin = ''https://evil.example.com'', data_type = Str ''OAUTH_AUTH_SUCCESS''\<rparr> = [] \<and>
   FetchUser \<in> set (handleMessage \<lparr>origin = ''https://app-1.run.app'',
                                    data_type = Str ''OAUTH_AUTH_SUCCESS''\<rparr>) \<and>
   FetchUser \<notin> set (handleMessage \<lparr>origin = ''https://app-1.run.app'', data_type = Str ''PING''\<rparr>)"
proof -
  have n: "\<not> (suffix ''.run.app'' ''https://evil.example.com'' \<or>
              sublist ''localhost'' ''https://evil.example.com'')"
    by (simp add: endsWith_suffix[symmetric] includes_str_sublist[symmetric] endsWith_def)
  have y: "suffix ''.run.app'' ''https://app-1.run.app''"
    by (simp add: endsWith_suffix[symmetric] endsWith_def)
  show ?thesis
    using n y
      listener_fetches_iff_origin_and_tag[of "\<lparr>origin = ''https://evil.example.com'',
         data_type = Str ''OAUTH_AUTH_SUCCESS''\<rparr>"]
      listener_fetches_iff_origin_and_tag[of "\<lparr>origin = ''https://app-1.run.app'',
         data_type = Str ''OAUTH_AUTH_SUCCESS''\<rparr>"]
      listener_fetches_iff_origin_and_tag[of "\<lparr>origin = ''https://app-1.run.app'',
         data_type = Str ''PING''\<rparr>"]
    by simp
qed

text \<open>
  The claim as first stated, that only origins of the application's own hosts are
  accepted, fails: a host under \<open>evil.example.com\<close> whose name begins with
  \<open>localhost\<close>, and any other application served under \<open>run.app\<close>, pass the
  test, and their message is acted upon.
\<close>

theorem foreign_origins_accepted:
  "handleMessage \<lparr>origin = ''https://localhost.evil.example.com'',
                  data_type = Str ''OAUTH_AUTH_SUCCESS''\<rparr> = [FetchUser] \<and>
   handleMessage \<lparr>origin = ''https://attacker.run.app'',
                  data_type = Str ''OAUTH_AUTH_SUCCESS''\<rparr> = [FetchUser]"
  by (simp add: handleMessage_def endsWith_def)

section \<open>A conflicting insert in the upsert\<close>

text \<open>Without a writer in between, the callback is the one above.\<close>

lemma github_callback_without_writer:
  "github_callback_with_writer ev code p now (\<lambda>d. d) d = github_callback ev code p now d"
  by (auto simp: github_callback_with_writer_def github_callback_def callback_try_with_writer_def
        callback_try_def upsert_def Let_def split: sum.splits prod.splits option.splits)

lemma select_admitted_Some_iff: "(\<exists>x. select_admitted d e = Some x) \<longleftrightarrow> e \<in> set (admitted_users d)"
  using select_admitted_None[of d e] by auto

lemma other_login_fresh:
  "other_login db_fresh =
     \<lparr>users = [\<lparr>u_id = ''7'', u_email = ''a@x.com'', u_nickname = Some ''h'',
                  u_avatar_url = Some ''a.png''\<rparr>], admitted_users = [''a@x.com'']\<rparr>"
proof -
  have x: "exchange (github_replies 7 ''h'' ''a.png'' ''a@x.com'') = Inr (profile 7 ''h'' ''a.png'', ''a@x.com'')"
    by (simp add: exchange_github_replies)
  have p: "present (Some ''c2'')" by (simp add: present_def)
  show ?thesis
    unfolding other_login_def
    by (simp add: callback_resolved[OF p env0_present(2,3) x] run_defs)
qed

text \<open>
  C9 (as amended). When the \<open>INSERT\<close> of the upsert throws for a new email, because
  the id or the email is already a key (the email when another writer has created the
  row after this login's \<open>SELECT\<close> found none), the callback does not read the
  existing row: the exception is caught at the end of the callback and answered with 500
  "Authentication failed", no cookie is set and the callback leaves the store as it
  found it at the insert.
\<close>

theorem insert_conflict_answers_500:
  assumes "present code" "present (GITHUB_CLIENT_ID ev)" "present (GITHUB_CLIENT_SECRET ev)"
    and "exchange p = Inr (userData, e)"
    and "e \<in> set (admitted_users d)"
    and "select_user_by_email d e = None"
    and "ud_id userData = Some n"
    and "insert_user (w d) (toString n) e (ud_login userData) (ud_avatar_url userData) = Inl err"
  shows "github_callback_with_writer ev code p now w d =
           (w d, \<lparr>status = 500, content = AuthenticationFailed err, set_cookie = None\<rparr>) \<and>
         (w d = d \<longrightarrow> github_callback ev code p now d =
           (d, \<lparr>status = 500, content = AuthenticationFailed err, set_cookie = None\<rparr>))"
proof
  from assms(5) obtain x where x: "select_admitted d e = Some x"
    using select_admitted_Some_iff[of d e] by auto
  have u: "upsert_after_select None (w d) e userData = Inl err"
    using assms(7,8) by (simp add: upsert_after_select_def js_or_def Let_def)
  show "github_callback_with_writer ev code p now w d =
           (w d, \<lparr>status = 500, content = AuthenticationFailed err, set_cookie = None\<rparr>)"
    using assms(1-4,6) x u
    by (simp add: github_callback_with_writer_def callback_try_with_writer_def reply_def)
  show "w d = d \<longrightarrow> github_callback ev code p now d =
           (d, \<lparr>status = 500, content = AuthenticationFailed err, set_cookie = None\<rparr>)"
  proof
    assume "w d = d"
    with assms(8)
    have "insert_user d (toString n) e (ud_login userData) (ud_avatar_url userData) = Inl err"
      by simp
    with assms(5-7) show "github_callback ev code p now d =
           (d, \<lparr>status = 500, content = AuthenticationFailed err, set_cookie = None\<rparr>)"
      by (simp add: callback_resolved[OF assms(1-4)] upsert_new reply_def)
  qed
qed

text \<open>A login of the new \<open>a@x.com\<close> while another writer stores that email under
  the id 8: the conflict is on the email alone. And the login of account 7, known under
  \<open>old@x.com\<close>, with no other writer: the conflict is on the id.\<close>

theorem insert_conflict_answers_500_witness:
  "present (Some ''c'') \<and> present (GITHUB_CLIENT_ID env0) \<and> present (GITHUB_CLIENT_SECRET env0) \<and>
   exchange (github_replies 7 ''h'' ''a.png'' ''a@x.com'') = Inr (profile 7 ''h'' ''a.png'', ''a@x.com'') \<and>
   ''a@x.com'' \<in> set (admitted_users db_fresh) \<and>
   select_user_by_email db_fresh ''a@x.com'' = None \<and>
   ud_id (profile 7 ''h'' ''a.png'') = Some 7 \<and>
   toString 7 \<notin> u_id ` set (users (other_writer db_fresh)) \<and>
   insert_user (other_writer db_fresh) (toString 7) ''a@x.com'' (ud_login (profile 7 ''h'' ''a.png''))
      (ud_avatar_url (profile 7 ''h'' ''a.png'')) = Inl SqliteError \<and>
   github_callback_with_writer env0 (Some ''c'') (github_replies 7 ''h'' ''a.png'' ''a@x.com'') 8
       other_writer db_fresh =
     (other_writer db_fresh,
      \<lparr>status = 500, content = AuthenticationFailed SqliteError, set_cookie = None\<rparr>) \<and>
   ''a@x.com'' \<in> set (admitted_users db_moved) \<and>
   select_user_by_email db_moved ''a@x.com'' = None \<and>
   insert_user db_moved (toString 7) ''a@x.com'' (ud_login (profile 7 ''h'' ''a.png''))
      (ud_avatar_url (profile 7 ''h'' ''a.png'')) = Inl SqliteError \<and>
   github_callback env0 (Some ''c'') (github_replies 7 ''h'' ''a.png'' ''a@x.com'') 8 db_moved =
     (db_moved, \<lparr>status = 500, content = AuthenticationFailed SqliteError, set_cookie = None\<rparr>)"
proof -
  have x: "exchange (github_replies 7 ''h'' ''a.png'' ''a@x.com'') = Inr (profile 7 ''h'' ''a.png'', ''a@x.com'')"
    by (simp add: exchange_github_replies)
  have i: "ud_id (profile 7 ''h'' ''a.png'') = Some 7"
    by (simp add: profile_def)
  have a: "''a@x.com'' \<in> set (admitted_users db_fresh)"
    by (simp add: db_fresh_def)
  have s: "select_user_by_email db_fresh ''a@x.com'' = None"
    by (simp add: run_defs)
  have k: "toString 7 \<notin> u_id ` set (users (other_writer db_fresh))"
    by (simp add: other_writer_def run_defs)
  have c: "insert_user (other_writer db_fresh) (toString 7) ''a@x.com'' (ud_login (profile 7 ''h'' ''a.png''))
      (ud_avatar_url (profile 7 ''h'' ''a.png'')) = Inl SqliteError"
    by (simp add: other_writer_def run_defs)
  have a': "''a@x.com'' \<in> set (admitted_users db_moved)"
    by (simp add: db_moved_def)
  have s': "select_user_by_email db_moved ''a@x.com'' = None"
    by (simp add: run_defs)
  have c': "insert_user ((\<lambda>d. d) db_moved) (toString 7) ''a@x.com'' (ud_login (profile 7 ''h'' ''a.png''))
      (ud_avatar_url (profile 7 ''h'' ''a.png'')) = Inl SqliteError"
    by (simp add: run_defs)
  have r1: "github_callback_with_writer env0 (Some ''c'') (github_replies 7 ''h'' ''a.png'' ''a@x.com'') 8
       other_writer db_fresh =
     (other_writer db_fresh,
      \<lparr>status = 500, content = AuthenticationFailed SqliteError, set_cookie = None\<rparr>)"
    using insert_conflict_answers_500[where w = other_writer and d = db_fresh and now = 8,
            OF env0_present x a s i c]
    by (rule conjunct1)
  have r2: "github_callback env0 (Some ''c'') (github_replies 7 ''h'' ''a.png'' ''a@x.com'') 8 db_moved =
     (db_moved, \<lparr>status = 500, content = AuthenticationFailed SqliteError, set_cookie = None\<rparr>)"
    using insert_conflict_answers_500[where w = "\<lambda>d. d" and d = db_moved and now = 8,
            OF env0_present x a' s' i c']
    by simp
  show ?thesis
    using env0_present x a s i k c r1 a' s' c' r2 by simp
qed

text \<open>
  The claim as first stated fails. Two logins of the same new account run at once: the
  second finds no row, the first then creates it, and the second's insert throws; the
  row is there to be read, and the callback answers 500 without a cookie. The same
  happens without any race when account 7, known under \<open>old@x.com\<close>, resolves to the
  admitted and new \<open>a@x.com\<close>: the insert hits the primary key.
\<close>

theorem insert_conflict_no_fallback_read:
  "select_user_by_email db_fresh ''a@x.com'' = None \<and>
   select_user_by_email (other_login db_fresh) ''a@x.com'' =
     Some \<lparr>u_id = ''7'', u_email = ''a@x.com'', u_nickname = Some ''h'', u_avatar_url = Some ''a.png''\<rparr> \<and>
   github_callback_with_writer env0 (Some ''c'') (github_replies 7 ''h'' ''a.png'' ''a@x.com'') 9
       other_login db_fresh =
     (other_login db_fresh,
      \<lparr>status = 500, content = AuthenticationFailed SqliteError, set_cookie = None\<rparr>) \<and>
   select_user_by_email db_moved ''a@x.com'' = None \<and>
   select_user_by_id db_moved ''7'' =
     Some \<lparr>u_id = ''7'', u_email = ''old@x.com'', u_nickname = Some ''h'', u_avatar_url = None\<rparr> \<and>
   github_callback env0 (Some ''c'') (github_replies 7 ''moved'' ''m.png'' ''a@x.com'') 9 db_moved =
     (db_moved, \<lparr>status = 500, content = AuthenticationFailed SqliteError, set_cookie = None\<rparr>)"
proof -
  have x: "exchange (github_replies 7 ''moved'' ''m.png'' ''a@x.com'') =
             Inr (profile 7 ''moved'' ''m.png'', ''a@x.com'')"
    by (simp add: exchange_github_replies)
  have y: "exchange (github_replies 7 ''h'' ''a.png'' ''a@x.com'') = Inr (profile 7 ''h'' ''a.png'', ''a@x.com'')"
    by (simp add: exchange_github_replies)
  have s: "select_user_by_email db_fresh ''a@x.com'' = None"
    by (simp add: run_defs)
  have s2: "select_user_by_email (other_login db_fresh) ''a@x.com'' =
     Some \<lparr>u_id = ''7'', u_email = ''a@x.com'', u_nickname = Some ''h'', u_avatar_url = Some ''a.png''\<rparr>"
    by (simp add: other_login_fresh select_user_by_email_def)
  have adm: "select_admitted db_fresh ''a@x.com'' = Some ''a@x.com''"
    by (simp add: select_admitted_def db_fresh_def)
  have u: "upsert_after_select None (other_login db_fresh) ''a@x.com'' (profile 7 ''h'' ''a.png'') = Inl SqliteError"
    by (simp add: other_login_fresh upsert_after_select_def insert_user_def js_or_def toString_7 profile_def)
  have r: "github_callback_with_writer env0 (Some ''c'') (github_replies 7 ''h'' ''a.png'' ''a@x.com'') 9
       other_login db_fresh =
     (other_login db_fresh,
      \<lparr>status = 500, content = AuthenticationFailed SqliteError, set_cookie = None\<rparr>)"
    using env0_present
    by (simp add: github_callback_with_writer_def callback_try_with_writer_def y adm s u reply_def)
  have q: "select_user_by_email db_moved ''a@x.com'' = None \<and>
   select_user_by_id db_moved ''7'' =
     Some \<lparr>u_id = ''7'', u_email = ''old@x.com'', u_nickname = Some ''h'', u_avatar_url = None\<rparr> \<and>
   github_callback env0 (Some ''c'') (github_replies 7 ''moved'' ''m.png'' ''a@x.com'') 9 db_moved =
     (db_moved, \<lparr>status = 500, content = AuthenticationFailed SqliteError, set_cookie = None\<rparr>)"
    by (simp add: callback_resolved[OF env0_present x] run_defs select_user_by_id_def)
  show ?thesis using s s2 r q by simp
qed

section \<open>Two concurrent bootstraps\<close>

text \<open>An initialiser that runs alone does what \<open>bootstrap\<close> does.\<close>

lemma init_step_alone:
  "interleave [P1, P1] (AtCount, b, d) =
     (case bootstrap d of Inr d' \<Rightarrow> (Started, b, d') | Inl e \<Rightarrow> (Crashed, b, d))"
  by (auto simp: bootstrap_def insert_admitted_def split: sum.splits)

lemma init_step_inv:
  assumes "(admitted_users d = [] \<and> \<not> finished a \<and> \<not> finished b) \<or>
           (admitted_users d = [seed_email] \<and> (a = Started \<or> b = Started))"
    and "init_step a d = (a', d')"
  shows "((admitted_users d' = [] \<and> \<not> finished a' \<and> \<not> finished b) \<or>
          (admitted_users d' = [seed_email] \<and> (a' = Started \<or> b = Started))) \<and> users d' = users d"
  using assms
  by (cases a) (auto simp: finished_def insert_admitted_def split: if_splits)

lemma interleave_inv:
  assumes "(admitted_users d = [] \<and> \<not> finished a \<and> \<not> finished b) \<or>
           (admitted_users d = [seed_email] \<and> (a = Started \<or> b = Started))"
    and "interleave sched (a, b, d) = (a', b', d')"
  shows "((admitted_users d' = [] \<and> \<not> finished a' \<and> \<not> finished b') \<or>
          (admitted_users d' = [seed_email] \<and> (a' = Started \<or> b' = Started))) \<and> users d' = users d"
  using assms
proof (induction sched arbitrary: a b d)
  case Nil
  then show ?case by simp
next
  case (Cons p sched)
  show ?case
  proof (cases p)
    case P1
    obtain a1 d1 where s: "init_step a d = (a1, d1)" by (cases "init_step a d")
    from init_step_inv[OF Cons.prems(1) s]
    have i: "(admitted_users d1 = [] \<and> \<not> finished a1 \<and> \<not> finished b) \<or>
          (admitted_users d1 = [seed_email] \<and> (a1 = Started \<or> b = Started))" and u: "users d1 = users d"
      by simp_all
    from Cons.prems(2) P1 s have "interleave sched (a1, b, d1) = (a', b', d')" by simp
    from Cons.IH[OF i this] u show ?thesis by simp
  next
    case P2
    obtain b1 d1 where s: "init_step b d = (b1, d1)" by (cases "init_step b d")
    have pre: "(admitted_users d = [] \<and> \<not> finished b \<and> \<not> finished a) \<or>
           (admitted_users d = [seed_email] \<and> (b = Started \<or> a = Started))"
      using Cons.prems(1) by auto
    from init_step_inv[OF pre s]
    have i: "(admitted_users d1 = [] \<and> \<not> finished a \<and> \<not> finished b1) \<or>
          (admitted_users d1 = [seed_email] \<and> (a = Started \<or> b1 = Started))" and u: "users d1 = users d"
      by auto
    from Cons.prems(2) P2 s have "interleave sched (a, b1, d1) = (a', b', d')" by simp
    from Cons.IH[OF i this] u show ?thesis by simp
  qed
qed

lemma init_step_left: "init_step a d = (a', d') \<Longrightarrow> steps_left a' \<le> steps_left a - 1"
  by (cases a) (auto split: if_splits sum.splits)

lemma interleave_finishes:
  assumes "interleave sched (a, b, d) = (a', b', d')"
  shows "(steps_left a \<le> count_list sched P1 \<longrightarrow> finished a') \<and>
         (steps_left b \<le> count_list sched P2 \<longrightarrow> finished b')"
  using assms
proof (induction sched arbitrary: a b d)
  case Nil
  then show ?case by (cases a; cases b) (auto simp: finished_def)
next
  case (Cons p sched)
  show ?case
  proof (cases p)
    case P1
    obtain a1 d1 where s: "init_step a d = (a1, d1)" by (cases "init_step a d")
    from Cons.prems P1 s have "interleave sched (a1, b, d1) = (a', b', d')" by simp
    from Cons.IH[OF this] init_step_left[OF s] P1 show ?thesis by auto
  next
    case P2
    obtain b1 d1 where s: "init_step b d = (b1, d1)" by (cases "init_step b d")
    from Cons.prems P2 s have "interleave sched (a, b1, d1) = (a', b', d')" by simp
    from Cons.IH[OF this] init_step_left[OF s] P2 show ?thesis by auto
  qed
qed

text \<open>
  C10 (as amended). From an empty allow-list, under every schedule that lets each
  of two initialisers run its two statements, both initialisers finish, at least one of
  them starts, and the allow-list holds exactly one row, the seed.
\<close>

theorem two_initialisations_one_seed:
  assumes "admitted_users d0 = []"
    and "2 \<le> count_list sched P1" "2 \<le> count_list sched P2"
    and "interleave sched (AtCount, AtCount, d0) = (a, b, d)"
  shows "finished a \<and> finished b \<and> (a = Started \<or> b = Started) \<and>
         admitted_users d = [seed_email] \<and> users d = users d0"
proof -
  have f: "finished a" "finished b"
    using interleave_finishes[OF assms(4)] assms(2,3) by simp_all
  have "(admitted_users d0 = [] \<and> \<not> finished AtCount \<and> \<not> finished AtCount) \<or>
           (admitted_users d0 = [seed_email] \<and> (AtCount = Started \<or> AtCount = Started))"
    using assms(1) by (simp add: finished_def)
  from interleave_inv[OF this assms(4)] f show ?thesis by auto
qed

text \<open>One initialiser after the other.\<close>

theorem two_initialisations_one_seed_witness:
  "admitted_users db_empty = [] \<and>
   2 \<le> count_list [P1, P1, P2, P2] P1 \<and> 2 \<le> count_list [P1, P1, P2, P2] P2 \<and>
   interleave [P1, P1, P2, P2] (AtCount, AtCount, db_empty) = (Started, Started, db_seeded) \<and>
   finished Started \<and> admitted_users db_seeded = [seed_email] \<and> users db_seeded = users db_empty"
proof -
  have e: "admitted_users db_empty = []"
    by (simp add: db_empty_def)
  have c: "2 \<le> count_list [P1, P1, P2, P2] P1" "2 \<le> count_list [P1, P1, P2, P2] P2"
    by simp_all
  have r: "interleave [P1, P1, P2, P2] (AtCount, AtCount, db_empty) = (Started, Started, db_seeded)"
    by (simp add: db_empty_def db_seeded_def insert_admitted_def)
  from two_initialisations_one_seed[OF e c r] e c r show ?thesis
    by simp
qed

text \<open>
  The claim as first stated fails in its second half: the check and the insert are not
  one atomic step. When both initialisers count before either inserts, the second insert
  violates the primary key and that initialiser crashes, whereas two bootstraps run one
  after the other both return.
\<close>

theorem racing_initialiser_crashes:
  "interleave [P1, P2, P1, P2] (AtCount, AtCount, db_empty) = (Started, Crashed, db_seeded) \<and>
   bootstrap db_empty = Inr db_seeded \<and> bootstrap db_seeded = Inr db_seeded"
  by (simp add: db_empty_def db_seeded_def insert_admitted_def bootstrap_def)

end
